theory Spec2Isabelle
  imports Main
begin

section \<open>The lsf command: formatted, filterable directory listing\<close>

text \<open>
  A shallow embedding of \<^verbatim>\<open>cmd/lsf/lsf.go\<close>. The function \<^verbatim>\<open>Lsf\<close>, its format
  loop and the callback it hands to \<^verbatim>\<open>walk.Walk\<close> are translated from the source.
  The packages it calls (\<^verbatim>\<open>fs\<close>, \<^verbatim>\<open>fs/hash\<close>, \<^verbatim>\<open>fs/operations\<close>, \<^verbatim>\<open>fs/walk\<close>)
  are not among the sources; what \<^verbatim>\<open>Lsf\<close> needs of them is modelled from the
  specification, each such definition saying so.
\<close>

subsection \<open>Errors\<close>

text \<open>
  Go's \<^verbatim>\<open>error\<close> values. \<open>UnknownFormatCharacter c\<close> is the value built by
  \<^verbatim>\<open>errors.Errorf("Unknown format character %q", char)\<close>; \<open>Err m\<close> is any other
  error (a listing error of the backend, a failed write), with its message.
\<close>

datatype error = UnknownFormatCharacter char | Err string

subsection \<open>Directory entries\<close>

text \<open>
  The hash kinds of the \<^verbatim>\<open>--hash\<close> flag (\<^verbatim>\<open>MD5|SHA-1|DropboxHash\<close>).
\<close>

datatype hash_type = MD5 | SHA1 | DropboxHash

text \<open>
  Modelled from the spec: the result of asking an object for a hash (the method of
  \<^verbatim>\<open>fs.Object\<close> is not among the sources). As in Go it is a string together with a
  possible error; the unsupported hash kind is an error of its own. The help text of
  the command says what the string is without an error: the hash, or the empty string
  if the hash is not available on the object.
\<close>

datatype hash_error = ErrUnsupported | ErrHashFailed

text \<open>
  Modelled from the spec: an entry is a file (an \<^verbatim>\<open>fs.Object\<close>) or a directory
  (an \<^verbatim>\<open>fs.Directory\<close>), with its path, its modification time (the timestamp in
  the fixed output format, or nothing when it is unavailable), and for a file its size
  and its hashes.
\<close>

datatype entry =
    is_File: File (remote: string) (modTime: "string option") (entry_size: int)
      (hashes: "hash_type \<Rightarrow> string \<times> hash_error option")
  | is_Directory: Directory (remote: string) (modTime: "string option")

subsection \<open>The list format (package operations)\<close>

text \<open>
  Modelled from the spec: \<^verbatim>\<open>operations.ListFormat\<close> (not among the sources) is the
  separator, the directory-slash switch and the ordered sequence of field codes added
  so far. Its zero value is what \<^verbatim>\<open>var list operations.ListFormat\<close> declares.
\<close>

datatype field = FieldPath | FieldModTime | FieldSize | FieldHash hash_type

record ListFormat =
  list_separator :: string
  list_dirSlash :: bool
  list_output :: "field list"

definition ListFormat_zero :: ListFormat where
  "ListFormat_zero = \<lparr>list_separator = [], list_dirSlash = False, list_output = []\<rparr>"

definition SetSeparator :: "string \<Rightarrow> ListFormat \<Rightarrow> ListFormat" where
  "SetSeparator s l = l\<lparr>list_separator := s\<rparr>"

definition SetDirSlash :: "bool \<Rightarrow> ListFormat \<Rightarrow> ListFormat" where
  "SetDirSlash d l = l\<lparr>list_dirSlash := d\<rparr>"

definition AddPath :: "ListFormat \<Rightarrow> ListFormat" where
  "AddPath l = l\<lparr>list_output := list_output l @ [FieldPath]\<rparr>"

definition AddModTime :: "ListFormat \<Rightarrow> ListFormat" where
  "AddModTime l = l\<lparr>list_output := list_output l @ [FieldModTime]\<rparr>"

definition AddSize :: "ListFormat \<Rightarrow> ListFormat" where
  "AddSize l = l\<lparr>list_output := list_output l @ [FieldSize]\<rparr>"

definition AddHash :: "hash_type \<Rightarrow> ListFormat \<Rightarrow> ListFormat" where
  "AddHash ht l = l\<lparr>list_output := list_output l @ [FieldHash ht]\<rparr>"

text \<open>Decimal rendering of a size.\<close>

definition digit :: "nat \<Rightarrow> char" where
  "digit k = ''0123456789'' ! (k mod 10)"

function decimal :: "nat \<Rightarrow> string" where
  "decimal n = (if n < 10 then [digit n] else decimal (n div 10) @ [digit n])"
  by pat_completeness auto
termination
  by (relation "measure (\<lambda>n. n)") auto

declare decimal.simps [simp del]

definition FormatInt :: "int \<Rightarrow> string" where
  "FormatInt i = (if i < 0 then CHR ''-'' # decimal (nat (- i)) else decimal (nat i))"

text \<open>
  Modelled from the spec: the hash of a file as it is printed. An unsupported hash
  kind prints \<^verbatim>\<open>UNSUPPORTED\<close>, any other error prints \<^verbatim>\<open>ERROR\<close>, and without an
  error the string the object gave is printed as it is.
\<close>

definition hashSum :: "hash_type \<Rightarrow> entry \<Rightarrow> string" where
  "hashSum ht o' =
     (case hashes o' ht of
        (text, Some ErrUnsupported) \<Rightarrow> ''UNSUPPORTED''
      | (text, Some ErrHashFailed) \<Rightarrow> ''ERROR''
      | (text, None) \<Rightarrow> text)"

text \<open>
  Modelled from the spec: the text of one field of an entry (section 4.1 of the
  specification). The path of a directory gets a slash when the switch is on; an
  unavailable time is empty; a directory has size \<^verbatim>\<open>0\<close> and an empty hash.
\<close>

fun field_text :: "ListFormat \<Rightarrow> entry \<Rightarrow> field \<Rightarrow> string" where
  "field_text l e FieldPath =
     (if is_Directory e \<and> list_dirSlash l then remote e @ ''/'' else remote e)"
| "field_text l e FieldModTime = (case modTime e of None \<Rightarrow> [] | Some t \<Rightarrow> t)"
| "field_text l e FieldSize = (if is_Directory e then ''0'' else FormatInt (entry_size e))"
| "field_text l e (FieldHash ht) = (if is_Directory e then [] else hashSum ht e)"

text \<open>Joining texts with a separator, none leading or trailing.\<close>

fun join :: "string \<Rightarrow> string list \<Rightarrow> string" where
  "join sep [] = []"
| "join sep [x] = x"
| "join sep (x # y # ys) = x @ sep @ join sep (y # ys)"

text \<open>
  Modelled from the spec: \<^verbatim>\<open>operations.ListFormatted\<close> (section 4.3), the texts of the
  fields in the order of the format, joined with the separator, nothing escaped.
\<close>

definition ListFormatted :: "entry \<Rightarrow> ListFormat \<Rightarrow> string" where
  "ListFormatted e l = join (list_separator l) (map (field_text l e) (list_output l))"

subsection \<open>The output sink and the side channel\<close>

text \<open>
  The state \<^verbatim>\<open>Lsf\<close> works on: the sink \<^verbatim>\<open>out\<close> (an \<^verbatim>\<open>io.Writer\<close>, of any state
  type \<open>'w\<close>), and the side channel of the \<^verbatim>\<open>fs\<close> package, modelled from the spec as
  an error counter and a diagnostic log that records each call of \<^verbatim>\<open>fs.Errorf\<close>
  (the object, the format text and the error).
\<close>

record 'w state =
  out :: 'w
  errors :: nat
  errlog :: "(string \<times> string \<times> error) list"

type_synonym 'w writer = "'w \<Rightarrow> string \<Rightarrow> 'w \<times> error option"

definition newline :: string where
  "newline = [CHR 0x0A]"

text \<open>
  \<^verbatim>\<open>fmt.Fprintln(out, s)\<close>: one \<^verbatim>\<open>Write\<close> of the text and a newline; the error of
  the write is the result.
\<close>

definition Fprintln :: "'w writer \<Rightarrow> string \<Rightarrow> 'w state \<Rightarrow> error option \<times> 'w state" where
  "Fprintln wr s st = (case wr (out st) (s @ newline) of (w, e) \<Rightarrow> (e, st\<lparr>out := w\<rparr>))"

definition CountError :: "error \<Rightarrow> 'w state \<Rightarrow> 'w state" where
  "CountError e st = st\<lparr>errors := errors st + 1\<rparr>"

definition Errorf :: "string \<Rightarrow> string \<Rightarrow> error \<Rightarrow> 'w state \<Rightarrow> 'w state" where
  "Errorf obj text e st = st\<lparr>errlog := errlog st @ [(obj, text, e)]\<rparr>"

subsection \<open>The traversal (package walk)\<close>

text \<open>
  Modelled from the spec: \<^verbatim>\<open>walk.Walk\<close> is not among the sources. The traversal of a
  remote from a path, to a depth, either cannot be started or yields a sequence of
  steps; a step is what the callback receives: a path, a batch of entries and possibly
  an error. \<^verbatim>\<open>Walk\<close> calls the callback on every step in order and stops at the first
  error the callback returns, which it returns.
\<close>

datatype depth = SingleLevel | Unlimited

definition ConfigMaxDepth :: "bool \<Rightarrow> depth" where
  "ConfigMaxDepth recursive = (if recursive then Unlimited else SingleLevel)"

record step =
  step_path :: string
  step_entries :: "entry list"
  step_err :: "error option"

datatype traversal = CannotStart error | Steps "step list"

type_synonym Fs = "string \<Rightarrow> bool \<Rightarrow> depth \<Rightarrow> traversal"

type_synonym 'w walk_func =
  "string \<Rightarrow> entry list \<Rightarrow> error option \<Rightarrow> 'w state \<Rightarrow> error option \<times> 'w state"

fun walk_steps :: "'w walk_func \<Rightarrow> step list \<Rightarrow> 'w state \<Rightarrow> error option \<times> 'w state" where
  "walk_steps fn [] st = (None, st)"
| "walk_steps fn (s # ss) st =
     (case fn (step_path s) (step_entries s) (step_err s) st of
        (Some e, st') \<Rightarrow> (Some e, st')
      | (None, st') \<Rightarrow> walk_steps fn ss st')"

definition Walk ::
  "Fs \<Rightarrow> string \<Rightarrow> bool \<Rightarrow> depth \<Rightarrow> 'w walk_func \<Rightarrow> 'w state \<Rightarrow> error option \<times> 'w state" where
  "Walk f path includeAll maxLevel fn st =
     (case f path includeAll maxLevel of
        CannotStart e \<Rightarrow> (Some e, st)
      | Steps ss \<Rightarrow> walk_steps fn ss st)"

subsection \<open>Lsf\<close>

text \<open>The package variables the flags of the command set.\<close>

record flags =
  format :: string
  separator :: string
  dirSlash :: bool
  recurse :: bool
  hashType :: hash_type
  filesOnly :: bool
  dirsOnly :: bool

text \<open>
  The loop over the characters of the format, with its switch: the first character
  that is none of \<^verbatim>\<open>p\<close>, \<^verbatim>\<open>t\<close>, \<^verbatim>\<open>s\<close>, \<^verbatim>\<open>h\<close> ends \<^verbatim>\<open>Lsf\<close> with an error.
\<close>

fun format_loop :: "hash_type \<Rightarrow> string \<Rightarrow> ListFormat \<Rightarrow> error + ListFormat" where
  "format_loop ht [] list = Inr list"
| "format_loop ht (char # rest) list =
     (if char = CHR ''p'' then format_loop ht rest (AddPath list)
      else if char = CHR ''t'' then format_loop ht rest (AddModTime list)
      else if char = CHR ''s'' then format_loop ht rest (AddSize list)
      else if char = CHR ''h'' then format_loop ht rest (AddHash ht list)
      else Inl (UnknownFormatCharacter char))"

text \<open>
  The loop over the entries of a batch: a directory is skipped under \<^verbatim>\<open>filesOnly\<close>,
  anything else under \<^verbatim>\<open>dirsOnly\<close>, and every other entry is printed as one line.
  What \<^verbatim>\<open>Fprintln\<close> returns is dropped, as in the source.
\<close>

fun entry_loop :: "flags \<Rightarrow> 'w writer \<Rightarrow> ListFormat \<Rightarrow> entry list \<Rightarrow> 'w state \<Rightarrow> 'w state" where
  "entry_loop fl wr list [] st = st"
| "entry_loop fl wr list (entry # rest) st =
     (let isDir = is_Directory entry in
      if isDir then
        (if filesOnly fl then entry_loop fl wr list rest st
         else entry_loop fl wr list rest (snd (Fprintln wr (ListFormatted entry list) st)))
      else
        (if dirsOnly fl then entry_loop fl wr list rest st
         else entry_loop fl wr list rest (snd (Fprintln wr (ListFormatted entry list) st))))"

text \<open>The callback given to \<^verbatim>\<open>walk.Walk\<close>.\<close>

definition walk_fn :: "flags \<Rightarrow> 'w writer \<Rightarrow> ListFormat \<Rightarrow> 'w walk_func" where
  "walk_fn fl wr list path entries err st =
     (case err of
        Some e \<Rightarrow> (None, Errorf path ''error listing: %v'' e (CountError e st))
      | None \<Rightarrow> (None, entry_loop fl wr list entries st))"

definition Lsf :: "flags \<Rightarrow> Fs \<Rightarrow> 'w writer \<Rightarrow> 'w state \<Rightarrow> error option \<times> 'w state" where
  "Lsf fl fsrc wr st =
     (let list = SetDirSlash (dirSlash fl) (SetSeparator (separator fl) ListFormat_zero) in
      case format_loop (hashType fl) (format fl) list of
        Inl e \<Rightarrow> (Some e, st)
      | Inr list' \<Rightarrow>
          Walk fsrc [] False (ConfigMaxDepth (recurse fl)) (walk_fn fl wr list') st)"

subsection \<open>Example data\<close>

text \<open>
  The defaults of the flags, as \<^verbatim>\<open>init\<close> registers them.
\<close>

definition default_flags :: flags where
  "default_flags =
     \<lparr>format = ''p'', separator = '';'', dirSlash = True, recurse = False,
      hashType = MD5, filesOnly = False, dirsOnly = False\<rparr>"

text \<open>
  Two sinks: a buffer that appends every write and never fails, and a broken sink
  that fails every write and keeps the texts it was asked to write.
\<close>

definition buffer_write :: "string writer" where
  "buffer_write w s = (w @ s, None)"

definition broken_write :: "string list writer" where
  "broken_write w s = (w @ [s], Some (Err ''broken pipe''))"

definition start :: "'a list state" where
  "start = \<lparr>out = [], errors = 0, errlog = []\<rparr>"

text \<open>
  The entries of the examples in the specification: a file whose backend does not
  support the hash kind, a directory, and a file on which the hash is not available.
\<close>

definition file_a :: entry where
  "file_a = File ''a'' (Some ''2020-01-01 00:00:00'') 10 (\<lambda>ht. ([], Some ErrUnsupported))"

definition dir_b :: entry where
  "dir_b = Directory ''b'' None"

definition file_c :: entry where
  "file_c = File ''b/c'' None 60295 (\<lambda>ht. ([], None))"


text \<open>
  Two remotes: one whose traversal is a single batch, and one whose second step is an
  error that comes with a batch of its own.
\<close>

definition fs_flat :: Fs where
  "fs_flat path includeAll maxLevel =
     Steps [\<lparr>step_path = [], step_entries = [file_a, dir_b], step_err = None\<rparr>]"

definition fs_failing :: Fs where
  "fs_failing path includeAll maxLevel =
     Steps [\<lparr>step_path = [], step_entries = [file_a, dir_b], step_err = None\<rparr>,
            \<lparr>step_path = ''x'', step_entries = [dir_b], step_err = Some (Err ''denied'')\<rparr>,
            \<lparr>step_path = ''b'', step_entries = [file_c], step_err = None\<rparr>]"

section \<open>Properties\<close>

subsection \<open>The format loop\<close>

lemma format_loop_valid:
  "set cs \<subseteq> {CHR ''p'', CHR ''t'', CHR ''s'', CHR ''h''} \<Longrightarrow>
   format_loop ht cs l =
     Inr (l\<lparr>list_output := list_output l @
            map (\<lambda>c. if c = CHR ''p'' then FieldPath
                     else if c = CHR ''t'' then FieldModTime
                     else if c = CHR ''s'' then FieldSize
                     else FieldHash ht) cs\<rparr>)"
  by (induction cs arbitrary: l)
     (auto simp: AddPath_def AddModTime_def AddSize_def AddHash_def)

lemma format_loop_unknown:
  "List.find (\<lambda>c. c \<notin> {CHR ''p'', CHR ''t'', CHR ''s'', CHR ''h''}) cs = Some c \<Longrightarrow>
   format_loop ht cs l = Inl (UnknownFormatCharacter c)"
  by (induction cs arbitrary: l) (auto split: if_splits)

lemma find_unknown:
  "c \<in> set cs \<Longrightarrow> \<not> P c \<Longrightarrow> \<exists>c'. List.find (\<lambda>x. \<not> P x) cs = Some c'"
  by (cases "List.find (\<lambda>x. \<not> P x) cs") (auto simp: find_None_iff)

subsection \<open>The callback and the traversal\<close>

lemma entry_loop_eq:
  "entry_loop fl wr list es st =
     st\<lparr>out := foldl (\<lambda>w e. fst (wr w (ListFormatted e list @ newline))) (out st)
                 (filter (\<lambda>e. if is_Directory e then \<not> filesOnly fl else \<not> dirsOnly fl) es)\<rparr>"
  by (induction es arbitrary: st) (auto simp: Fprintln_def Let_def split: prod.splits)

lemma walk_fn_ok:
  "walk_fn fl wr list path entries None st = (None, entry_loop fl wr list entries st)"
  by (simp add: walk_fn_def)

lemma walk_fn_err:
  "walk_fn fl wr list path entries (Some e) st =
     (None, st\<lparr>errors := errors st + 1,
               errlog := errlog st @ [(path, ''error listing: %v'', e)]\<rparr>)"
  by (simp add: walk_fn_def CountError_def Errorf_def)

lemma walk_steps_walk_fn:
  "walk_steps (walk_fn fl wr list) ss st =
     (None,
      st\<lparr>out := foldl (\<lambda>w e. fst (wr w (ListFormatted e list @ newline))) (out st)
                 (concat (map (\<lambda>s. if step_err s = None
                    then filter (\<lambda>e. if is_Directory e then \<not> filesOnly fl else \<not> dirsOnly fl)
                           (step_entries s)
                    else []) ss)),
         errors := errors st + length (filter (\<lambda>s. step_err s \<noteq> None) ss),
         errlog := errlog st @
           concat (map (\<lambda>s. case step_err s of None \<Rightarrow> []
                    | Some e \<Rightarrow> [(step_path s, ''error listing: %v'', e)]) ss)\<rparr>)"
proof (induction ss arbitrary: st)
  case Nil
  show ?case by simp
next
  case (Cons s ss)
  show ?case
  proof (cases "step_err s")
    case None
    then show ?thesis
      by (simp add: walk_fn_ok Cons.IH entry_loop_eq)
  next
    case (Some e)
    then show ?thesis
      by (simp add: walk_fn_err Cons.IH)
  qed
qed

subsection \<open>Lsf on a format it accepts and on one it rejects\<close>

lemma Lsf_valid:
  assumes "set (format fl) \<subseteq> {CHR ''p'', CHR ''t'', CHR ''s'', CHR ''h''}"
  shows "Lsf fl fsrc wr st =
     Walk fsrc [] False (ConfigMaxDepth (recurse fl))
       (walk_fn fl wr
          \<lparr>list_separator = separator fl, list_dirSlash = dirSlash fl,
           list_output =
             map (\<lambda>c. if c = CHR ''p'' then FieldPath
                      else if c = CHR ''t'' then FieldModTime
                      else if c = CHR ''s'' then FieldSize
                      else FieldHash (hashType fl)) (format fl)\<rparr>) st"
  by (simp add: Lsf_def format_loop_valid [OF assms] SetDirSlash_def SetSeparator_def
      ListFormat_zero_def)

lemma Lsf_invalid:
  assumes "List.find (\<lambda>c. c \<notin> {CHR ''p'', CHR ''t'', CHR ''s'', CHR ''h''}) (format fl) = Some c"
  shows "Lsf fl fsrc wr st = (Some (UnknownFormatCharacter c), st)"
  by (simp add: Lsf_def format_loop_unknown [OF assms])

text \<open>
  C1. A format with a character that is none of \<^verbatim>\<open>p\<close>, \<^verbatim>\<open>t\<close>, \<^verbatim>\<open>s\<close>, \<^verbatim>\<open>h\<close> makes
  \<^verbatim>\<open>Lsf\<close> return the unknown-format-character error carrying the first such character
  of the format. The state comes back as it was, whatever the remote and the sink are:
  the traversal is not started (a remote whose traversal cannot start would have given
  its own error), nothing is written, and nothing is counted or logged.
\<close>

theorem Lsf_unknown_format_character:
  assumes "c \<in> set (format fl)"
    and "c \<notin> {CHR ''p'', CHR ''t'', CHR ''s'', CHR ''h''}"
  shows "\<exists>c'. List.find (\<lambda>x. x \<notin> {CHR ''p'', CHR ''t'', CHR ''s'', CHR ''h''}) (format fl) = Some c'
           \<and> c' \<in> set (format fl)
           \<and> c' \<notin> {CHR ''p'', CHR ''t'', CHR ''s'', CHR ''h''}
           \<and> Lsf fl fsrc wr st = (Some (UnknownFormatCharacter c'), st)"
proof -
  from assms obtain c' where
    f: "List.find (\<lambda>x. x \<notin> {CHR ''p'', CHR ''t'', CHR ''s'', CHR ''h''}) (format fl) = Some c'"
    using find_unknown [of c "format fl" "\<lambda>x. x \<in> {CHR ''p'', CHR ''t'', CHR ''s'', CHR ''h''}"]
    by auto
  from f have "c' \<in> set (format fl)" and "c' \<notin> {CHR ''p'', CHR ''t'', CHR ''s'', CHR ''h''}"
    by (auto simp: find_Some_iff)
  with f Lsf_invalid [OF f] show ?thesis by blast
qed

theorem Lsf_unknown_format_character_witness:
  "CHR ''x'' \<in> set (format (default_flags\<lparr>format := ''pxy''\<rparr>))
   \<and> Lsf (default_flags\<lparr>format := ''pxy''\<rparr>) fs_flat buffer_write start
       = (Some (UnknownFormatCharacter (CHR ''x'')), start)"
  using Lsf_unknown_format_character
    [of "CHR ''x''" "default_flags\<lparr>format := ''pxy''\<rparr>" fs_flat buffer_write start]
  by (simp add: default_flags_def)

lemma Lsf_steps:
  assumes "set (format fl) \<subseteq> {CHR ''p'', CHR ''t'', CHR ''s'', CHR ''h''}"
    and "fsrc [] False (ConfigMaxDepth (recurse fl)) = Steps ss"
  shows "Lsf fl fsrc wr st =
     (None,
      st\<lparr>out := foldl (\<lambda>w line. fst (wr w line)) (out st)
                 (map (\<lambda>e. ListFormatted e
                         \<lparr>list_separator = separator fl, list_dirSlash = dirSlash fl,
                          list_output =
                            map (\<lambda>c. if c = CHR ''p'' then FieldPath
                                     else if c = CHR ''t'' then FieldModTime
                                     else if c = CHR ''s'' then FieldSize
                                     else FieldHash (hashType fl)) (format fl)\<rparr> @ newline)
                   (concat (map (\<lambda>s. if step_err s = None
                      then filter (\<lambda>e. if is_Directory e then \<not> filesOnly fl else \<not> dirsOnly fl)
                             (step_entries s)
                      else []) ss))),
         errors := errors st + length (filter (\<lambda>s. step_err s \<noteq> None) ss),
         errlog := errlog st @
           concat (map (\<lambda>s. case step_err s of None \<Rightarrow> []
                    | Some e \<Rightarrow> [(step_path s, ''error listing: %v'', e)]) ss)\<rparr>)"
  using assms(2)
  by (simp add: Lsf_valid [OF assms(1)] Walk_def walk_steps_walk_fn foldl_map)

lemma foldl_buffer_write:
  "foldl (\<lambda>w line. fst (buffer_write w line)) w ls = w @ concat ls"
  by (induction ls arbitrary: w) (simp_all add: buffer_write_def)

subsection \<open>What is written, and in which order\<close>

text \<open>
  C7. For a format of \<^verbatim>\<open>p\<close>, \<^verbatim>\<open>t\<close>, \<^verbatim>\<open>s\<close>, \<^verbatim>\<open>h\<close> and a traversal that delivers the
  steps \<open>ss\<close>, the sink receives exactly one write per surviving entry (an entry of a
  step without an error that passes the filter), each the rendered line of the entry
  followed by a newline, in the order of delivery across entries and steps, and
  nothing else. On a buffer that appends, the content grows by exactly these lines.
\<close>

theorem Lsf_lines_in_delivery_order:
  fixes fl :: flags and wr :: "'w writer"
  assumes "set (format fl) \<subseteq> {CHR ''p'', CHR ''t'', CHR ''s'', CHR ''h''}"
    and "fsrc [] False (ConfigMaxDepth (recurse fl)) = Steps ss"
  defines "list \<equiv>
      \<lparr>list_separator = separator fl, list_dirSlash = dirSlash fl,
       list_output =
         map (\<lambda>c. if c = CHR ''p'' then FieldPath
                  else if c = CHR ''t'' then FieldModTime
                  else if c = CHR ''s'' then FieldSize
                  else FieldHash (hashType fl)) (format fl)\<rparr>"
    and "surviving \<equiv>
      concat (map (\<lambda>s. if step_err s = None
        then filter (\<lambda>e. if is_Directory e then \<not> filesOnly fl else \<not> dirsOnly fl)
               (step_entries s)
        else []) ss)"
  shows "out (snd (Lsf fl fsrc wr st)) =
           foldl (\<lambda>w line. fst (wr w line)) (out st)
             (map (\<lambda>e. ListFormatted e list @ newline) surviving)
       \<and> out (snd (Lsf fl fsrc buffer_write bst)) =
           out bst @ concat (map (\<lambda>e. ListFormatted e list @ newline) surviving)"
  unfolding list_def surviving_def
  by (simp add: Lsf_steps [where fsrc = fsrc, OF assms(1,2)] foldl_buffer_write)

theorem Lsf_lines_in_delivery_order_witness:
  "out (snd (Lsf (default_flags\<lparr>format := ''tsp'', recurse := True\<rparr>) fs_failing buffer_write start)) =
     ''2020-01-01 00:00:00;10;a'' @ newline @ '';0;b/'' @ newline @ '';60295;b/c'' @ newline"
  using Lsf_lines_in_delivery_order
    [of "default_flags\<lparr>format := ''tsp'', recurse := True\<rparr>" fs_failing
        "[\<lparr>step_path = [], step_entries = [file_a, dir_b], step_err = None\<rparr>,
          \<lparr>step_path = ''x'', step_entries = [dir_b], step_err = Some (Err ''denied'')\<rparr>,
          \<lparr>step_path = ''b'', step_entries = [file_c], step_err = None\<rparr>]"
        buffer_write start start]
  by (simp add: default_flags_def fs_failing_def start_def file_a_def dir_b_def file_c_def
      ListFormatted_def FormatInt_def decimal.simps digit_def buffer_write_def)

subsection \<open>Steps that carry an error\<close>

text \<open>
  C2. For a format \<^verbatim>\<open>Lsf\<close> accepts and a traversal that delivers the steps \<open>ss\<close>,
  some of them with an error: \<^verbatim>\<open>Lsf\<close> returns no error; every error step adds one to
  the error counter and one entry (its path and its error) to the diagnostic log, in
  order; and the entries of all the steps without an error, before and after the
  failed ones, are still written.
\<close>

theorem Lsf_step_errors_reported:
  fixes fl :: flags and wr :: "'w writer"
  assumes "set (format fl) \<subseteq> {CHR ''p'', CHR ''t'', CHR ''s'', CHR ''h''}"
    and "fsrc [] False (ConfigMaxDepth (recurse fl)) = Steps ss"
  defines "list \<equiv>
      \<lparr>list_separator = separator fl, list_dirSlash = dirSlash fl,
       list_output =
         map (\<lambda>c. if c = CHR ''p'' then FieldPath
                  else if c = CHR ''t'' then FieldModTime
                  else if c = CHR ''s'' then FieldSize
                  else FieldHash (hashType fl)) (format fl)\<rparr>"
  shows "fst (Lsf fl fsrc wr st) = None
       \<and> errors (snd (Lsf fl fsrc wr st)) =
           errors st + length (filter (\<lambda>s. step_err s \<noteq> None) ss)
       \<and> errlog (snd (Lsf fl fsrc wr st)) =
           errlog st @
           concat (map (\<lambda>s. case step_err s of None \<Rightarrow> []
                    | Some e \<Rightarrow> [(step_path s, ''error listing: %v'', e)]) ss)
       \<and> out (snd (Lsf fl fsrc wr st)) =
           foldl (\<lambda>w line. fst (wr w line)) (out st)
             (map (\<lambda>e. ListFormatted e list @ newline)
               (concat (map (\<lambda>s. if step_err s = None
                  then filter (\<lambda>e. if is_Directory e then \<not> filesOnly fl else \<not> dirsOnly fl)
                         (step_entries s)
                  else []) ss)))"
  unfolding list_def
  by (simp add: Lsf_steps [where fsrc = fsrc, OF assms(1,2)])

theorem Lsf_step_errors_reported_witness:
  "fst (Lsf default_flags fs_failing buffer_write start) = None
   \<and> errors (snd (Lsf default_flags fs_failing buffer_write start)) = 1
   \<and> errlog (snd (Lsf default_flags fs_failing buffer_write start)) =
       [(''x'', ''error listing: %v'', Err ''denied'')]
   \<and> out (snd (Lsf default_flags fs_failing buffer_write start)) =
       ''a'' @ newline @ ''b/'' @ newline @ ''b/c'' @ newline"
  using Lsf_step_errors_reported
    [of default_flags fs_failing
      "[\<lparr>step_path = [], step_entries = [file_a, dir_b], step_err = None\<rparr>,
        \<lparr>step_path = ''x'', step_entries = [dir_b], step_err = Some (Err ''denied'')\<rparr>,
        \<lparr>step_path = ''b'', step_entries = [file_c], step_err = None\<rparr>]"
      buffer_write start]
  by (simp add: default_flags_def fs_failing_def start_def file_a_def dir_b_def file_c_def
      ListFormatted_def buffer_write_def)

text \<open>
  C10. On a step that carries an error the callback counts and logs the error and
  returns at once: whatever batch of entries comes with the step, the sink is left as
  it was, so none of these entries is filtered, rendered or written.
\<close>

theorem walk_fn_error_step_skips_entries:
  "walk_fn fl wr list path entries (Some e) st =
     (None, st\<lparr>errors := errors st + 1,
               errlog := errlog st @ [(path, ''error listing: %v'', e)]\<rparr>)
   \<and> out (snd (walk_fn fl wr list path entries (Some e) st)) = out st"
  by (simp add: walk_fn_err)

theorem walk_fn_error_step_skips_entries_witness:
  "walk_fn default_flags buffer_write
     \<lparr>list_separator = '';'', list_dirSlash = True, list_output = [FieldPath]\<rparr>
     ''x'' [dir_b, file_a] (Some (Err ''denied'')) start =
     (None, \<lparr>out = [], errors = 1, errlog = [(''x'', ''error listing: %v'', Err ''denied'')]\<rparr>)"
  using walk_fn_error_step_skips_entries
    [of default_flags buffer_write
        "\<lparr>list_separator = '';'', list_dirSlash = True, list_output = [FieldPath]\<rparr>"
        "''x''" "[dir_b, file_a]" "Err ''denied''" start]
  by (simp add: start_def)

subsection \<open>Both filters at once\<close>

lemma keep_both_flags:
  "filesOnly fl \<Longrightarrow> dirsOnly fl \<Longrightarrow>
   filter (\<lambda>e. if is_Directory e then \<not> filesOnly fl else \<not> dirsOnly fl) es = []"
  by simp

lemma surviving_both_flags:
  assumes "filesOnly fl" and "dirsOnly fl"
  shows "concat (map (\<lambda>s. if step_err s = None
      then filter (\<lambda>e. if is_Directory e then \<not> filesOnly fl else \<not> dirsOnly fl)
             (step_entries s)
      else []) ss) = []"
  unfolding keep_both_flags [OF assms]
  by (induction ss) simp_all

lemma entry_loop_both_flags:
  "filesOnly fl \<Longrightarrow> dirsOnly fl \<Longrightarrow> entry_loop fl wr list es st = st"
  by (simp add: entry_loop_eq)

text \<open>
  C9. With \<^verbatim>\<open>filesOnly\<close> and \<^verbatim>\<open>dirsOnly\<close> both set, the callback leaves the state as
  it was on every batch (each entry, file or directory, is skipped), and \<^verbatim>\<open>Lsf\<close>, on
  a format it accepts and a traversal that starts, writes nothing and returns no error.
\<close>

theorem Lsf_files_only_and_dirs_only:
  fixes fl :: flags and wr :: "'w writer"
  assumes "filesOnly fl" and "dirsOnly fl"
    and "set (format fl) \<subseteq> {CHR ''p'', CHR ''t'', CHR ''s'', CHR ''h''}"
    and "fsrc [] False (ConfigMaxDepth (recurse fl)) = Steps ss"
  shows "fst (Lsf fl fsrc wr st) = None
       \<and> out (snd (Lsf fl fsrc wr st)) = out st
       \<and> walk_fn fl wr list path entries None st = (None, st)"
proof -
  note L = Lsf_steps [where fsrc = fsrc and wr = wr and st = st, OF assms(3,4)]
  note S = surviving_both_flags [OF assms(1,2), of ss]
  have "out (snd (Lsf fl fsrc wr st)) = out st"
    unfolding L S by simp
  moreover have "fst (Lsf fl fsrc wr st) = None"
    unfolding L by simp
  moreover have "walk_fn fl wr list path entries None st = (None, st)"
    by (simp add: walk_fn_ok entry_loop_both_flags [OF assms(1,2)])
  ultimately show ?thesis by simp
qed

theorem Lsf_files_only_and_dirs_only_witness:
  "fst (Lsf (default_flags\<lparr>filesOnly := True, dirsOnly := True\<rparr>) fs_flat buffer_write start) = None
   \<and> out (snd (Lsf (default_flags\<lparr>filesOnly := True, dirsOnly := True\<rparr>) fs_flat buffer_write start)) = []"
  using Lsf_files_only_and_dirs_only
    [of "default_flags\<lparr>filesOnly := True, dirsOnly := True\<rparr>" fs_flat
      "[\<lparr>step_path = [], step_entries = [file_a, dir_b], step_err = None\<rparr>]"
      buffer_write start]
  by (simp add: default_flags_def fs_flat_def start_def)

subsection \<open>The filter on a batch\<close>

text \<open>
  C4. On a step without an error the callback writes the lines of the entries that
  pass the filter, in order, and returns no error. With \<^verbatim>\<open>filesOnly\<close> set no
  directory is among them; with \<^verbatim>\<open>dirsOnly\<close> set no file is among them; with neither
  set they are all the entries of the batch, so each entry gives exactly one line.
\<close>

theorem walk_fn_filters_batch:
  fixes fl :: flags and wr :: "'w writer"
  defines "keep \<equiv> \<lambda>e. if is_Directory e then \<not> filesOnly fl else \<not> dirsOnly fl"
  shows "walk_fn fl wr list path entries None st =
           (None, st\<lparr>out := foldl (\<lambda>w line. fst (wr w line)) (out st)
                     (map (\<lambda>e. ListFormatted e list @ newline) (filter keep entries))\<rparr>)
       \<and> (filesOnly fl \<longrightarrow> (\<forall>e \<in> set (filter keep entries). \<not> is_Directory e))
       \<and> (dirsOnly fl \<longrightarrow> (\<forall>e \<in> set (filter keep entries). \<not> is_File e))
       \<and> (\<not> filesOnly fl \<and> \<not> dirsOnly fl \<longrightarrow> filter keep entries = entries)"
proof -
  have written: "walk_fn fl wr list path entries None st =
      (None, st\<lparr>out := foldl (\<lambda>w line. fst (wr w line)) (out st)
                (map (\<lambda>e. ListFormatted e list @ newline) (filter keep entries))\<rparr>)"
    by (simp add: walk_fn_ok entry_loop_eq foldl_map keep_def)
  have no_dir: "\<not> is_Directory e" if "filesOnly fl" and "keep e" for e
    using that by (cases e) (simp_all add: keep_def)
  have no_file: "\<not> is_File e" if "dirsOnly fl" and "keep e" for e
    using that by (cases e) (simp_all add: keep_def)
  have all_kept: "filter keep entries = entries" if "\<not> filesOnly fl" and "\<not> dirsOnly fl"
    using that by (simp add: keep_def)
  from written no_dir no_file all_kept show ?thesis
    by simp
qed

theorem walk_fn_filters_batch_witness:
  "out (snd (walk_fn (default_flags\<lparr>filesOnly := True\<rparr>) buffer_write
        \<lparr>list_separator = '';'', list_dirSlash = True, list_output = [FieldPath]\<rparr>
        [] [file_a, dir_b] None start)) = ''a'' @ newline
   \<and> out (snd (walk_fn (default_flags\<lparr>dirsOnly := True\<rparr>) buffer_write
        \<lparr>list_separator = '';'', list_dirSlash = True, list_output = [FieldPath]\<rparr>
        [] [file_a, dir_b] None start)) = ''b/'' @ newline
   \<and> out (snd (walk_fn default_flags buffer_write
        \<lparr>list_separator = '';'', list_dirSlash = True, list_output = [FieldPath]\<rparr>
        [] [file_a, dir_b] None start)) = ''a'' @ newline @ ''b/'' @ newline"
proof (intro conjI)
  show "out (snd (walk_fn (default_flags\<lparr>filesOnly := True\<rparr>) buffer_write
        \<lparr>list_separator = '';'', list_dirSlash = True, list_output = [FieldPath]\<rparr>
        [] [file_a, dir_b] None start)) = ''a'' @ newline"
    using walk_fn_filters_batch [of "default_flags\<lparr>filesOnly := True\<rparr>" buffer_write
        "\<lparr>list_separator = '';'', list_dirSlash = True, list_output = [FieldPath]\<rparr>"
        "[]" "[file_a, dir_b]" start]
    by (simp add: default_flags_def start_def file_a_def dir_b_def ListFormatted_def
        buffer_write_def)
  show "out (snd (walk_fn (default_flags\<lparr>dirsOnly := True\<rparr>) buffer_write
        \<lparr>list_separator = '';'', list_dirSlash = True, list_output = [FieldPath]\<rparr>
        [] [file_a, dir_b] None start)) = ''b/'' @ newline"
    using walk_fn_filters_batch [of "default_flags\<lparr>dirsOnly := True\<rparr>" buffer_write
        "\<lparr>list_separator = '';'', list_dirSlash = True, list_output = [FieldPath]\<rparr>"
        "[]" "[file_a, dir_b]" start]
    by (simp add: default_flags_def start_def file_a_def dir_b_def ListFormatted_def
        buffer_write_def)
  show "out (snd (walk_fn default_flags buffer_write
        \<lparr>list_separator = '';'', list_dirSlash = True, list_output = [FieldPath]\<rparr>
        [] [file_a, dir_b] None start)) = ''a'' @ newline @ ''b/'' @ newline"
    using walk_fn_filters_batch [of default_flags buffer_write
        "\<lparr>list_separator = '';'', list_dirSlash = True, list_output = [FieldPath]\<rparr>"
        "[]" "[file_a, dir_b]" start]
    by (simp add: default_flags_def start_def file_a_def dir_b_def ListFormatted_def
        buffer_write_def)
qed

subsection \<open>Writes that fail\<close>

lemma walk_fn_write_errors:
  "walk_fn fl wr = walk_fn fl (\<lambda>w line. (fst (wr w line), None))"
  by (intro ext) (simp add: walk_fn_def entry_loop_eq split: option.splits)

lemma Lsf_write_errors:
  "Lsf fl fsrc wr st = Lsf fl fsrc (\<lambda>w line. (fst (wr w line), None)) st"
  unfolding Lsf_def
  by (subst walk_fn_write_errors [of fl wr]) (rule refl)

text \<open>
  C3, amended. \<^verbatim>\<open>Lsf\<close> drops what \<^verbatim>\<open>Fprintln\<close> returns, so a write that fails is
  not noticed: \<^verbatim>\<open>Lsf\<close> behaves exactly as on the sink whose writes have the same
  effect and never fail. It neither stops at the failed write nor returns its error;
  on a format it accepts and a traversal that starts it returns no error.
\<close>

theorem Lsf_discards_write_errors:
  fixes fl :: flags and wr :: "'w writer"
  assumes "set (format fl) \<subseteq> {CHR ''p'', CHR ''t'', CHR ''s'', CHR ''h''}"
    and "fsrc [] False (ConfigMaxDepth (recurse fl)) = Steps ss"
  shows "fst (Lsf fl fsrc wr st) = None
       \<and> Lsf fl fsrc wr st = Lsf fl fsrc (\<lambda>w line. (fst (wr w line), None)) st"
proof -
  have "fst (Lsf fl fsrc wr st) = None"
    by (simp add: Lsf_steps [where fsrc = fsrc, OF assms])
  then show ?thesis
    using Lsf_write_errors [of fl fsrc wr st] by (rule conjI)
qed

theorem Lsf_discards_write_errors_witness:
  "fst (Lsf default_flags fs_flat broken_write start) = None
   \<and> snd (broken_write [] (''a'' @ newline)) = Some (Err ''broken pipe'')
   \<and> out (snd (Lsf default_flags fs_flat broken_write start)) = [''a'' @ newline, ''b/'' @ newline]"
  using Lsf_discards_write_errors
    [of default_flags fs_flat
      "[\<lparr>step_path = [], step_entries = [file_a, dir_b], step_err = None\<rparr>]"
      broken_write start]
  by (simp add: default_flags_def fs_flat_def start_def file_a_def dir_b_def Lsf_def Walk_def
      walk_fn_ok SetDirSlash_def SetSeparator_def ListFormat_zero_def AddPath_def
      Fprintln_def ListFormatted_def broken_write_def)

text \<open>
  As the claim is first stated (a failed write ends the listing and its error is
  returned) it does not hold: on the broken sink the first write fails, the second
  line is written all the same, and no error is returned.
\<close>

theorem Lsf_write_error_counterexample:
  "snd (broken_write (out start) (''a'' @ newline)) = Some (Err ''broken pipe'')
   \<and> Lsf default_flags fs_flat broken_write start =
       (None, \<lparr>out = [''a'' @ newline, ''b/'' @ newline], errors = 0, errlog = []\<rparr>)"
  by (simp add: default_flags_def fs_flat_def start_def file_a_def dir_b_def Lsf_def Walk_def
      walk_fn_ok SetDirSlash_def SetSeparator_def ListFormat_zero_def AddPath_def
      Fprintln_def ListFormatted_def broken_write_def)

subsection \<open>The order of the fields\<close>

text \<open>
  C5. On every format of \<^verbatim>\<open>p\<close>, \<^verbatim>\<open>t\<close>, \<^verbatim>\<open>s\<close>, \<^verbatim>\<open>h\<close> only (a code may occur
  more than once) the format loop succeeds, \<^verbatim>\<open>Lsf\<close> goes on to the traversal with the
  list it built, and that list holds one field per character of the format, in the
  order of the format: every rendered line is the texts of these fields, in this
  order, joined with the separator, a repeated code giving its field again.
\<close>

theorem format_loop_keeps_order:
  fixes fl :: flags and wr :: "'w writer"
  assumes "set (format fl) \<subseteq> {CHR ''p'', CHR ''t'', CHR ''s'', CHR ''h''}"
  defines "codes \<equiv>
      map (\<lambda>c. if c = CHR ''p'' then FieldPath
               else if c = CHR ''t'' then FieldModTime
               else if c = CHR ''s'' then FieldSize
               else FieldHash (hashType fl)) (format fl)"
  shows "\<exists>list.
      format_loop (hashType fl) (format fl)
        (SetDirSlash (dirSlash fl) (SetSeparator (separator fl) ListFormat_zero)) = Inr list
    \<and> list_output list = codes
    \<and> (\<forall>e. ListFormatted e list = join (separator fl) (map (field_text list e) codes))
    \<and> Lsf fl fsrc wr st =
        Walk fsrc [] False (ConfigMaxDepth (recurse fl)) (walk_fn fl wr list) st"
  unfolding codes_def
  by (simp add: format_loop_valid [OF assms(1)] Lsf_valid [OF assms(1)] ListFormatted_def
      SetDirSlash_def SetSeparator_def ListFormat_zero_def)

theorem format_loop_keeps_order_witness:
  "format_loop MD5 ''pp'' (SetDirSlash True (SetSeparator '';'' ListFormat_zero)) =
     Inr \<lparr>list_separator = '';'', list_dirSlash = True, list_output = [FieldPath, FieldPath]\<rparr>
   \<and> ListFormatted dir_b
       \<lparr>list_separator = '';'', list_dirSlash = True, list_output = [FieldPath, FieldPath]\<rparr>
     = ''b/;b/''"
  using format_loop_keeps_order [of "default_flags\<lparr>format := ''pp''\<rparr>" fs_flat buffer_write start]
  by (simp add: default_flags_def dir_b_def ListFormatted_def
      SetDirSlash_def SetSeparator_def ListFormat_zero_def AddPath_def)

subsection \<open>The empty format\<close>

text \<open>
  C6, amended. The empty format is accepted: the format loop returns the list with no
  field, every entry renders as the empty text, and \<^verbatim>\<open>Lsf\<close> goes on to the
  traversal, writes an empty line for every surviving entry and returns no error.
\<close>

theorem Lsf_empty_format:
  fixes fl :: flags and wr :: "'w writer"
  assumes "format fl = []"
    and "fsrc [] False (ConfigMaxDepth (recurse fl)) = Steps ss"
  defines "list \<equiv> SetDirSlash (dirSlash fl) (SetSeparator (separator fl) ListFormat_zero)"
  shows "format_loop (hashType fl) (format fl) list = Inr list
       \<and> ListFormatted e list = []
       \<and> fst (Lsf fl fsrc wr st) = None
       \<and> out (snd (Lsf fl fsrc wr st)) =
           foldl (\<lambda>w line. fst (wr w line)) (out st)
             (map (\<lambda>e. newline)
               (concat (map (\<lambda>s. if step_err s = None
                  then filter (\<lambda>e. if is_Directory e then \<not> filesOnly fl else \<not> dirsOnly fl)
                         (step_entries s)
                  else []) ss)))"
proof -
  have valid: "set (format fl) \<subseteq> {CHR ''p'', CHR ''t'', CHR ''s'', CHR ''h''}"
    using assms(1) by simp
  show ?thesis
    unfolding list_def
    by (simp add: Lsf_steps [where fsrc = fsrc, OF valid assms(2)] assms(1) ListFormatted_def
        SetDirSlash_def SetSeparator_def ListFormat_zero_def)
qed

theorem Lsf_empty_format_witness:
  "fst (Lsf (default_flags\<lparr>format := []\<rparr>) fs_flat buffer_write start) = None
   \<and> out (snd (Lsf (default_flags\<lparr>format := []\<rparr>) fs_flat buffer_write start)) = newline @ newline"
  using Lsf_empty_format
    [of "default_flags\<lparr>format := []\<rparr>" fs_flat
      "[\<lparr>step_path = [], step_entries = [file_a, dir_b], step_err = None\<rparr>]"
      file_a buffer_write start]
  by (simp add: default_flags_def fs_flat_def start_def file_a_def dir_b_def buffer_write_def)

text \<open>
  As the claim is first stated (the empty format is an error and the traversal is not
  reached) it does not hold: on the empty format the two entries of the batch are
  written as two empty lines and no error is returned.
\<close>

theorem Lsf_empty_format_counterexample:
  "Lsf (default_flags\<lparr>format := []\<rparr>) fs_flat buffer_write start =
     (None, \<lparr>out = newline @ newline, errors = 0, errlog = []\<rparr>)"
  by (simp add: default_flags_def fs_flat_def start_def file_a_def dir_b_def Lsf_def Walk_def
      walk_fn_ok SetDirSlash_def SetSeparator_def ListFormat_zero_def
      Fprintln_def ListFormatted_def buffer_write_def)

subsection \<open>The hash field of a file\<close>






end
